theory Spec2Isabelle
  imports Main "HOL-Library.Sublist"
begin

section \<open>Python text operations used by the search tool\<close>

text \<open>
  Python text is modelled as \<open>string\<close>: every \<open>char\<close> stands for one character of the
  text (a code point below 256), so \<open>length\<close> is Python's \<open>len\<close>. The functions below
  are the built-in \<open>str\<close> methods that \<^verbatim>\<open>github_search_tool.py\<close> calls.
\<close>

text \<open>\<^verbatim>\<open>sep.join(parts)\<close>\<close>

fun join :: "string \<Rightarrow> string list \<Rightarrow> string" where
  "join sep [] = []"
| "join sep [x] = x"
| "join sep (x # y # ys) = x @ sep @ join sep (y # ys)"

text \<open>\<^verbatim>\<open>str(n)\<close> for an integer: decimal digits, with a minus sign below zero.\<close>

fun digits :: "nat \<Rightarrow> string" where
  "digits n = (if n < 10 then [''0123456789'' ! n]
               else digits (n div 10) @ [''0123456789'' ! (n mod 10)])"

declare digits.simps [simp del]

definition str_int :: "int \<Rightarrow> string" where
  "str_int i = (if i < 0 then CHR ''-'' # digits (nat (- i)) else digits (nat i))"

text \<open>
  \<^verbatim>\<open>c.isspace()\<close> on the characters below 256: tab, line feed, vertical tab, form feed,
  carriage return, the four separators 0x1C..0x1F, space, next line and no-break space.
\<close>

definition isspace :: "char \<Rightarrow> bool" where
  "isspace c = (c \<in> set [CHR 0x09, CHR 0x0A, CHR 0x0B, CHR 0x0C, CHR 0x0D,
                          CHR 0x1C, CHR 0x1D, CHR 0x1E, CHR 0x1F, CHR 0x20,
                          CHR 0x85, CHR 0xA0])"

text \<open>
  \<^verbatim>\<open>s.split()\<close> without an argument: the maximal runs of non-space characters, in
  order; \<open>w\<close> is the token being read.
\<close>

fun split_from :: "string \<Rightarrow> string \<Rightarrow> string list" where
  "split_from w [] = (if w = [] then [] else [w])"
| "split_from w (c # cs) =
     (if isspace c then (if w = [] then [] else [w]) @ split_from [] cs
      else split_from (w @ [c]) cs)"

definition split :: "string \<Rightarrow> string list" where
  "split s = split_from [] s"

text \<open>
  \<^verbatim>\<open>s.lower()\<close> on the characters below 256: the letters A..Z and the accented capitals
  0xC0..0xDE (not the multiplication sign 0xD7) move up by 32, which sets bit 5.
\<close>

definition isupper :: "char \<Rightarrow> bool" where
  "isupper c = (let n = (of_char c :: nat)
                in (65 \<le> n \<and> n \<le> 90) \<or> (192 \<le> n \<and> n \<le> 222 \<and> n \<noteq> 215))"

definition lower_char :: "char \<Rightarrow> char" where
  "lower_char c =
     (if isupper c
      then Char (digit0 c) (digit1 c) (digit2 c) (digit3 c) (digit4 c) True (digit6 c) (digit7 c)
      else c)"

definition lower :: "string \<Rightarrow> string" where
  "lower s = map lower_char s"

text \<open>\<^verbatim>\<open>needle in haystack\<close> on text: the needle occurs as a contiguous run.\<close>

fun contains :: "string \<Rightarrow> string \<Rightarrow> bool" where
  "contains needle [] = (needle = [])"
| "contains needle (c # cs) = (prefix needle (c # cs) \<or> contains needle cs)"

text \<open>
  \<^verbatim>\<open>s.replace(old, new)\<close>: every occurrence of \<open>old\<close>, found from the left and not
  overlapping, becomes \<open>new\<close>. With an empty \<open>old\<close> Python puts \<open>new\<close> before every
  character and at the end.
\<close>

function replace_from :: "string \<Rightarrow> string \<Rightarrow> string \<Rightarrow> string" where
  "replace_from old new [] = []"
| "replace_from old new (c # cs) =
     (if prefix old (c # cs) \<and> old \<noteq> []
      then new @ replace_from old new (drop (length old - 1) cs)
      else c # replace_from old new cs)"
  by pat_completeness auto
termination
  by (relation "measure (\<lambda>(old, new, s). length s)") auto

definition replace :: "string \<Rightarrow> string \<Rightarrow> string \<Rightarrow> string" where
  "replace s old new =
     (if old = [] then new @ concat (map (\<lambda>c. c # new) s) else replace_from old new s)"

section \<open>Data model\<close>

text \<open>
  The dataclass \<^verbatim>\<open>SearchParameters\<close>, with the field types it declares.
  \<^verbatim>\<open>Optional[str]\<close> is \<open>string option\<close>, Python's unbounded \<^verbatim>\<open>int\<close> is \<open>int\<close>.
  The field \<^verbatim>\<open>keywords\<close> is named \<open>keywords_text\<close> here, the plain name being a
  reserved word of the theory language.
\<close>

record SearchParameters =
  keywords_text :: string
  language :: "string option"
  min_stars :: int
  topic :: "string option"
  sort_by :: string
  max_results :: int
  include_readme :: bool
  fallback_search :: bool

text \<open>
  Truth value of an \<^verbatim>\<open>Optional[str]\<close> in a condition (\<^verbatim>\<open>if params.language:\<close>):
  \<^verbatim>\<open>None\<close> and the empty text are false.
\<close>

definition truthy :: "string option \<Rightarrow> bool" where
  "truthy v = (case v of None \<Rightarrow> False | Some s \<Rightarrow> s \<noteq> [])"

section \<open>Query builder\<close>

text \<open>\<^verbatim>\<open>GitHubSearchTool._build_search_query\<close>\<close>

definition build_search_query :: "SearchParameters \<Rightarrow> string" where
  "build_search_query params =
     (let query_parts = [keywords_text params];
          query_parts = (if truthy (language params)
                         then query_parts @ [''language:'' @ the (language params)]
                         else query_parts);
          query_parts = (if min_stars params > 0
                         then query_parts @ [''stars:>='' @ str_int (min_stars params)]
                         else query_parts);
          query_parts = (if truthy (topic params)
                         then query_parts @ [''topic:'' @ the (topic params)]
                         else query_parts)
      in join '' '' query_parts)"

section \<open>Suggestion engine\<close>

text \<open>
  The two dictionaries of \<^verbatim>\<open>_generate_search_suggestions\<close>. A Python dictionary is
  read in the order its keys were written, so each is a list of pairs.
\<close>

definition abbreviations :: "(string \<times> string) list" where
  "abbreviations =
     [(''ml'', ''machine learning''),
      (''ai'', ''artificial intelligence''),
      (''dl'', ''deep learning''),
      (''nlp'', ''natural language processing''),
      (''cv'', ''computer vision''),
      (''eda'', ''exploratory data analysis''),
      (''etl'', ''extract transform load''),
      (''api'', ''application programming interface''),
      (''cli'', ''command line''),
      (''gui'', ''graphical user interface''),
      (''db'', ''database''),
      (''auth'', ''authentication''),
      (''auto'', ''automated OR automatic'')]"

definition topic_suggestions :: "(string \<times> string) list" where
  "topic_suggestions =
     [(''data analysis'', ''data-science''),
      (''machine learning'', ''machine-learning''),
      (''web framework'', ''web''),
      (''automation'', ''automation''),
      (''visualization'', ''data-visualization''),
      (''api'', ''api''),
      (''cli'', ''cli''),
      (''testing'', ''testing'')]"

text \<open>
  \<^verbatim>\<open>GitHubSearchTool._generate_search_suggestions\<close>. The two \<^verbatim>\<open>for ... break\<close> loops
  take the first pair of their dictionary that passes the test, which is \<open>find\<close>.
  \<open>CHR 0x22\<close> is the double quote.
\<close>

definition generate_search_suggestions :: "SearchParameters \<Rightarrow> string list" where
  "generate_search_suggestions params =
     (let suggestions = [];
          keywords = lower (keywords_text params);
          suggestions =
            (case find (\<lambda>(abbr, expansion). abbr \<in> set (split keywords)) abbreviations of
               Some (abbr, expansion) \<Rightarrow>
                 (let new_keywords = replace keywords abbr expansion
                  in suggestions @
                     [''Try expanding abbreviations: '' @ [CHR 0x22] @ new_keywords @ [CHR 0x22]])
             | None \<Rightarrow> suggestions);
          suggestions =
            (if min_stars params > 100
             then suggestions @
                  [''Try lowering min_stars from '' @ str_int (min_stars params) @ '' to '' @
                   str_int (min_stars params div 2) @ '' or 50'']
             else suggestions);
          suggestions =
            (if truthy (language params)
             then suggestions @
                  [''Try searching without the language filter (remove language: '' @
                   [CHR 0x22] @ the (language params) @ [CHR 0x22] @ '')'']
             else suggestions);
          keyword_list = split (keywords_text params);
          suggestions =
            (if length keyword_list > 2
             then (let shorter = join '' '' (take 2 keyword_list)
                   in suggestions @
                      [''Try using fewer keywords: '' @ [CHR 0x22] @ shorter @ [CHR 0x22]])
             else suggestions);
          suggestions =
            (if \<not> truthy (topic params)
             then (case find (\<lambda>(keyword, tag). contains keyword keywords) topic_suggestions of
                     Some (keyword, tag) \<Rightarrow>
                       suggestions @
                       [''Try adding topic filter: topic:'' @ [CHR 0x22] @ tag @ [CHR 0x22]]
                   | None \<Rightarrow> suggestions)
             else suggestions)
      in if suggestions = []
         then [''Try using more general or alternative keywords'',
               ''Check spelling and try common synonyms'']
         else suggestions)"

section \<open>Exceptions and the outside world\<close>

text \<open>
  An exception is a value. \<^verbatim>\<open>main\<close> tells three kinds apart: \<^verbatim>\<open>ValueError\<close> (which
  \<^verbatim>\<open>json.JSONDecodeError\<close>, \<^verbatim>\<open>binascii.Error\<close> and \<^verbatim>\<open>UnicodeDecodeError\<close> are subclasses
  of), \<^verbatim>\<open>RuntimeError\<close>, and every other subclass of \<^verbatim>\<open>Exception\<close>; \<^verbatim>\<open>KeyError\<close> is
  kept apart because the result normalizer raises it. The text is \<^verbatim>\<open>str(e)\<close>, for a
  \<^verbatim>\<open>KeyError\<close> the missing key.
\<close>

datatype exn =
    ValueError string
  | RuntimeError string
  | KeyError string
  | OtherException string

definition str_exn :: "exn \<Rightarrow> string" where
  "str_exn e = (case e of
       ValueError msg \<Rightarrow> msg
     | RuntimeError msg \<Rightarrow> msg
     | KeyError k \<Rightarrow> [CHR 0x27] @ k @ [CHR 0x27]
     | OtherException msg \<Rightarrow> msg)"

text \<open>
  A JSON document as \<^verbatim>\<open>json\<close> decodes it: \<^verbatim>\<open>None\<close>, a boolean, an integer, text, a
  list, or a dictionary (a list of pairs with distinct keys). Numbers with a fraction
  are left out.
\<close>

datatype json =
    JNull
  | JBool bool
  | JInt int
  | JStr string
  | JArr "json list"
  | JObj "(string \<times> json) list"

text \<open>Truth value of a decoded JSON value in a condition (\<^verbatim>\<open>if content:\<close>).\<close>

fun json_truthy :: "json \<Rightarrow> bool" where
  "json_truthy JNull = False"
| "json_truthy (JBool b) = b"
| "json_truthy (JInt n) = (n \<noteq> 0)"
| "json_truthy (JStr s) = (s \<noteq> [])"
| "json_truthy (JArr xs) = (xs \<noteq> [])"
| "json_truthy (JObj kvs) = (kvs \<noteq> [])"

text \<open>
  \<^verbatim>\<open>data.get(key, default)\<close> on a decoded document: only a dictionary has the method,
  on anything else the call raises \<^verbatim>\<open>AttributeError\<close>.
\<close>

definition json_get :: "json \<Rightarrow> string \<Rightarrow> json \<Rightarrow> exn + json" where
  "json_get data key dflt =
     (case data of
        JObj kvs \<Rightarrow> Inr (case map_of kvs key of Some v \<Rightarrow> v | None \<Rightarrow> dflt)
      | _ \<Rightarrow> Inl (OtherException ''object has no attribute get''))"

text \<open>
  What one \<^verbatim>\<open>self.client.get(...)\<close> gives: either the transport raises
  \<^verbatim>\<open>httpx.RequestError\<close> (with the text of \<^verbatim>\<open>str(e)\<close>), or a response arrives with its
  \<^verbatim>\<open>status_code\<close>, its \<^verbatim>\<open>text\<close>, and what \<^verbatim>\<open>response.json()\<close> would give: an exception or
  the decoded body. \<^verbatim>\<open>response.raise_for_status()\<close> of httpx raises
  \<^verbatim>\<open>httpx.HTTPStatusError\<close> for every status outside 200..299.
\<close>

datatype 'a http_result =
    RequestError string
  | Response nat string "exn + 'a"

definition is_success :: "nat \<Rightarrow> bool" where
  "is_success status_code = (200 \<le> status_code \<and> status_code \<le> 299)"

text \<open>
  One record of the provider's \<^verbatim>\<open>items\<close> array, with the keys that
  \<^verbatim>\<open>search_repositories\<close> reads. A key read with \<^verbatim>\<open>item["k"]\<close> may be missing (\<open>None\<close>
  here), and reading it then raises \<^verbatim>\<open>KeyError\<close>. \<open>item_description\<close> and \<open>item_language\<close>, read
  with \<^verbatim>\<open>item.get("k")\<close>, are \<open>None\<close> when the key is missing or null. \<open>item_topics\<close>,
  read with \<^verbatim>\<open>item.get("topics", [])\<close>, is \<open>None\<close> when the key is missing, where the
  code takes the empty list; a null \<^verbatim>\<open>topics\<close>, which the code would store as \<^verbatim>\<open>None\<close>,
  is not a \<^verbatim>\<open>list[str]\<close> and has no place in this record. \<open>item_license\<close> is \<open>None\<close>
  when the \<^verbatim>\<open>license\<close> key is missing, null or an empty dictionary (the cases where
  \<^verbatim>\<open>item.get("license")\<close> is false), and otherwise holds what \<^verbatim>\<open>.get("spdx_id")\<close> gives on
  the sub-object.
\<close>

record raw_item =
  item_name :: "string option"
  item_full_name :: "string option"
  item_description :: "string option"
  item_html_url :: "string option"
  item_stargazers_count :: "int option"
  item_forks_count :: "int option"
  item_language :: "string option"
  item_topics :: "string list option"
  item_created_at :: "string option"
  item_updated_at :: "string option"
  item_pushed_at :: "string option"
  item_open_issues_count :: "int option"
  item_license :: "string option option"

text \<open>
  The decoded body of the search response: \<open>data_items\<close> is \<open>None\<close> when the dictionary
  has no \<^verbatim>\<open>items\<close> key, where \<^verbatim>\<open>data.get("items", [])\<close> gives the empty list.
\<close>

record search_data =
  data_items :: "raw_item list option"

text \<open>The requests the tool sends, in the log of one run.\<close>

datatype request =
    SearchRequest string string string int
  | ReadmeRequest string

text \<open>
  A decoded input document that is a JSON object, read through the input schema:
  each field is \<open>None\<close> when its key is missing from the object, and otherwise holds a
  value of the type the dataclass declares for it (for \<^verbatim>\<open>language\<close> and \<^verbatim>\<open>topic\<close>, whose
  type is \<^verbatim>\<open>Optional[str]\<close>, \<open>None\<close> also stands for a null). Keys outside the schema are
  never read.
\<close>

record input_doc =
  d_keywords :: "string option"
  d_language :: "string option"
  d_min_stars :: "int option"
  d_topic :: "string option"
  d_sort_by :: "string option"
  d_max_results :: "int option"
  d_include_readme :: "bool option"
  d_fallback_search :: "bool option"

text \<open>
  What \<^verbatim>\<open>json.loads\<close> gives for the input text: any JSON document. Besides an object
  it may be an array, a text, or a scalar (null, a boolean or a number), of which only
  the Python type matters to \<^verbatim>\<open>parse_parameters\<close>.
\<close>

datatype scalar_type = NoneType | BoolType | IntType | FloatType

definition type_name :: "scalar_type \<Rightarrow> string" where
  "type_name t = (case t of
       NoneType \<Rightarrow> ''NoneType''
     | BoolType \<Rightarrow> ''bool''
     | IntType \<Rightarrow> ''int''
     | FloatType \<Rightarrow> ''float'')"

datatype document =
    DObject input_doc
  | DArray "json list"
  | DText string
  | DScalar scalar_type

text \<open>
  Everything outside the program: the provider and the library decoders. The provider
  answers a request knowing how many requests came before it, so that it may answer
  the same request differently at different times. \<open>search_get\<close> takes the four query
  parameters \<^verbatim>\<open>q\<close>, \<^verbatim>\<open>sort\<close>, \<^verbatim>\<open>order\<close> and \<^verbatim>\<open>per_page\<close>, \<open>readme_get\<close> the path.
  \<open>json_loads\<close> is \<^verbatim>\<open>json.loads\<close> on the tool's input (\<open>Inl\<close> carries the text of the
  \<^verbatim>\<open>JSONDecodeError\<close>), \<open>b64decode\<close> is \<^verbatim>\<open>base64.b64decode\<close> (bytes as numbers) and
  \<open>utf8_decode\<close> is \<^verbatim>\<open>bytes.decode("utf-8")\<close>.
\<close>

record world =
  search_get :: "nat \<Rightarrow> string \<Rightarrow> string \<Rightarrow> string \<Rightarrow> int \<Rightarrow> search_data http_result"
  readme_get :: "nat \<Rightarrow> string \<Rightarrow> json http_result"
  json_loads :: "string \<Rightarrow> string + document"
  b64decode :: "string \<Rightarrow> exn + nat list"
  utf8_decode :: "nat list \<Rightarrow> exn + string"

text \<open>
  The dataclass \<^verbatim>\<open>Repository\<close>. Its field \<^verbatim>\<open>language\<close> is named \<open>repo_language\<close>, the
  plain name being the field of \<open>SearchParameters\<close>.
\<close>

record Repository =
  name :: string
  full_name :: string
  description :: "string option"
  url :: string
  stars :: int
  forks :: int
  repo_language :: "string option"
  topics :: "string list"
  created_at :: string
  updated_at :: string
  pushed_at :: string
  open_issues :: int
  license :: "string option"
  readme_content :: "string option"

text \<open>One dictionary of the \<^verbatim>\<open>repositories\<close> list that \<^verbatim>\<open>format_output\<close> builds.\<close>

record repo_entry =
  out_name :: string
  out_full_name :: string
  out_description :: "string option"
  out_url :: string
  out_stars :: int
  out_forks :: int
  out_language :: "string option"
  out_topics :: "string list"
  out_created_at :: string
  out_updated_at :: string
  out_pushed_at :: string
  out_open_issues :: int
  out_license :: "string option"
  out_readme :: "string option"

text \<open>
  The output dictionary, success or failure shaped: a key that the dictionary does not
  have is \<open>None\<close>.
\<close>

record envelope =
  success :: bool
  count :: "nat option"
  repositories :: "repo_entry list option"
  suggestions :: "string list option"
  message :: "string option"
  error :: "string option"
  error_type :: "string option"

text \<open>
  What one run of \<^verbatim>\<open>main\<close> leaves behind: the dictionary it printed and the stream it
  went to, the exit code, and the requests that were sent, in order.
\<close>

datatype stream = Stdout | Stderr

record run =
  stream_of :: stream
  printed :: envelope
  exit_code :: int
  requests :: "request list"

section \<open>README retrieval\<close>

definition readme_marker :: string where
  "readme_marker = [CHR 0x0A, CHR 0x0A] @ ''[README truncated...]''"

text \<open>
  The body of the \<^verbatim>\<open>try\<close> block of \<^verbatim>\<open>GitHubSearchTool._fetch_readme\<close>, given what the
  request gave: \<open>Inl e\<close> when the block raises \<open>e\<close>, \<open>Inr (Some text)\<close> when it returns
  the text, \<open>Inr None\<close> when it returns \<^verbatim>\<open>None\<close> at the 404 test or leaves the block
  without returning.
\<close>

definition fetch_readme_try :: "world \<Rightarrow> json http_result \<Rightarrow> exn + string option" where
  "fetch_readme_try w result =
     (case result of
        RequestError msg \<Rightarrow> Inl (OtherException msg)
      | Response status_code txt body \<Rightarrow>
          if status_code = 404 then Inr None
          else if \<not> is_success status_code then Inl (OtherException ''HTTPStatusError'')
          else (case body of
             Inl e \<Rightarrow> Inl e
           | Inr data \<Rightarrow>
              (case json_get data ''content'' (JStr []) of
                 Inl e \<Rightarrow> Inl e
               | Inr content \<Rightarrow>
                   if json_truthy content
                   then (case content of
                           JStr c \<Rightarrow>
                             (case b64decode w (replace c [CHR 0x0A] []) of
                                Inl e \<Rightarrow> Inl e
                              | Inr raw \<Rightarrow>
                                 (case utf8_decode w raw of
                                    Inl e \<Rightarrow> Inl e
                                  | Inr decoded \<Rightarrow>
                                      (let max_length = 5000;
                                           decoded = (if length decoded > max_length
                                                      then take max_length decoded @ readme_marker
                                                      else decoded)
                                       in Inr (Some decoded))))
                         | _ \<Rightarrow> Inl (OtherException ''object has no attribute replace''))
                   else Inr None)))"

text \<open>The path \<^verbatim>\<open>f"/repos/{full_name}/readme"\<close> of the README resource.\<close>

definition readme_path :: "string \<Rightarrow> string" where
  "readme_path fname = ''/repos/'' @ fname @ ''/readme''"

text \<open>
  \<^verbatim>\<open>GitHubSearchTool._fetch_readme\<close>: the request is sent and logged;
  \<^verbatim>\<open>except Exception: pass\<close> turns every exception of the block into \<^verbatim>\<open>None\<close>.
\<close>

definition fetch_readme :: "world \<Rightarrow> request list \<Rightarrow> string \<Rightarrow> string option \<times> request list" where
  "fetch_readme w log fname =
     (let path = readme_path fname;
          result = readme_get w (length log) path
      in (case fetch_readme_try w result of Inl e \<Rightarrow> None | Inr r \<Rightarrow> r,
          log @ [ReadmeRequest path]))"

section \<open>Result normalizer and search\<close>

text \<open>
  The call \<^verbatim>\<open>Repository(name=item["name"], ...)\<close>: the arguments are evaluated in the
  order written, so the first missing key among those read with \<^verbatim>\<open>item["k"]\<close> is the
  \<^verbatim>\<open>KeyError\<close>; \<^verbatim>\<open>readme_content\<close> takes its default.
\<close>

definition make_repository :: "raw_item \<Rightarrow> exn + Repository" where
  "make_repository item =
     (case find (\<lambda>(key, present). \<not> present)
             [(''name'', item_name item \<noteq> None),
              (''full_name'', item_full_name item \<noteq> None),
              (''html_url'', item_html_url item \<noteq> None),
              (''stargazers_count'', item_stargazers_count item \<noteq> None),
              (''forks_count'', item_forks_count item \<noteq> None),
              (''created_at'', item_created_at item \<noteq> None),
              (''updated_at'', item_updated_at item \<noteq> None),
              (''pushed_at'', item_pushed_at item \<noteq> None),
              (''open_issues_count'', item_open_issues_count item \<noteq> None)] of
        Some (key, present) \<Rightarrow> Inl (KeyError key)
      | None \<Rightarrow>
          Inr \<lparr>name = the (item_name item),
               full_name = the (item_full_name item),
               description = item_description item,
               url = the (item_html_url item),
               stars = the (item_stargazers_count item),
               forks = the (item_forks_count item),
               repo_language = item_language item,
               topics = (case item_topics item of Some ts \<Rightarrow> ts | None \<Rightarrow> []),
               created_at = the (item_created_at item),
               updated_at = the (item_updated_at item),
               pushed_at = the (item_pushed_at item),
               open_issues = the (item_open_issues_count item),
               license = (case item_license item of Some spdx_id \<Rightarrow> spdx_id | None \<Rightarrow> None),
               readme_content = None\<rparr>)"

text \<open>
  The \<^verbatim>\<open>for item in ...\<close> loop of \<^verbatim>\<open>search_repositories\<close>. An exception leaves the loop
  and the list built so far is lost.
\<close>

fun normalize_items ::
  "world \<Rightarrow> bool \<Rightarrow> raw_item list \<Rightarrow> request list \<Rightarrow> (exn + Repository list) \<times> request list"
where
  "normalize_items w readme [] log = (Inr [], log)"
| "normalize_items w readme (item # rest) log =
     (case make_repository item of
        Inl e \<Rightarrow> (Inl e, log)
      | Inr repo \<Rightarrow>
          (let (content, log1) = (if readme then fetch_readme w log (full_name repo)
                                  else (None, log));
               repo = repo\<lparr>readme_content := content\<rparr>
           in (case normalize_items w readme rest log1 of
                 (Inl e, log2) \<Rightarrow> (Inl e, log2)
               | (Inr repos, log2) \<Rightarrow> (Inr (repo # repos), log2))))"

definition sort_mapping :: "(string \<times> string) list" where
  "sort_mapping =
     [(''stars'', ''stars''),
      (''forks'', ''forks''),
      (''updated'', ''updated''),
      (''help-wanted-issues'', ''help-wanted-issues'')]"

text \<open>\<^verbatim>\<open>GitHubSearchTool.search_repositories\<close>\<close>

definition search_repositories ::
  "world \<Rightarrow> SearchParameters \<Rightarrow> request list \<Rightarrow> (exn + Repository list) \<times> request list"
where
  "search_repositories w params log =
     (let query = build_search_query params;
          sort = (case map_of sort_mapping (sort_by params) of
                    Some s \<Rightarrow> s | None \<Rightarrow> ''stars'');
          per_page = min (max_results params) 10;
          result = search_get w (length log) query sort ''desc'' per_page;
          log = log @ [SearchRequest query sort ''desc'' per_page]
      in (case result of
            RequestError msg \<Rightarrow> (Inl (RuntimeError (''Request failed: '' @ msg)), log)
          | Response status_code txt body \<Rightarrow>
              if \<not> is_success status_code
              then (Inl (RuntimeError (''GitHub API error: '' @ str_int (int status_code) @
                                       '' - '' @ txt)), log)
              else (case body of
                      Inl e \<Rightarrow> (Inl e, log)
                    | Inr data \<Rightarrow>
                        normalize_items w (include_readme params)
                          (case data_items data of Some items \<Rightarrow> items | None \<Rightarrow> []) log)))"

section \<open>Output envelope\<close>

definition to_entry :: "Repository \<Rightarrow> repo_entry" where
  "to_entry repo =
     \<lparr>out_name = name repo,
      out_full_name = full_name repo,
      out_description = description repo,
      out_url = url repo,
      out_stars = stars repo,
      out_forks = forks repo,
      out_language = repo_language repo,
      out_topics = topics repo,
      out_created_at = created_at repo,
      out_updated_at = updated_at repo,
      out_pushed_at = pushed_at repo,
      out_open_issues = open_issues repo,
      out_license = license repo,
      out_readme = readme_content repo\<rparr>"

text \<open>\<^verbatim>\<open>GitHubSearchTool.format_output\<close>; \<open>params\<close> is \<open>None\<close> for the default argument.\<close>

definition format_output :: "Repository list \<Rightarrow> SearchParameters option \<Rightarrow> envelope" where
  "format_output repos params =
     (let results = map to_entry repos;
          output = \<lparr>success = True,
                    count = Some (length results),
                    repositories = Some results,
                    suggestions = None,
                    message = None,
                    error = None,
                    error_type = None\<rparr>
      in if length results = 0 \<and> params \<noteq> None
         then output\<lparr>suggestions := Some (generate_search_suggestions (the params)),
                     message := Some (''No repositories found matching your criteria. '' @
                                      ''See suggestions for alternative searches.'')\<rparr>
         else output)"

section \<open>Parameter parsing and the entry point\<close>

text \<open>\<^verbatim>\<open>data.get(key, default)\<close> on the input document.\<close>

definition get_default :: "'a option \<Rightarrow> 'a \<Rightarrow> 'a" where
  "get_default v dflt = (case v of Some x \<Rightarrow> x | None \<Rightarrow> dflt)"

text \<open>
  The test \<^verbatim>\<open>"keywords" in data\<close>: a key of an object, an element of an array, a part of
  a text; on a scalar the test itself raises \<^verbatim>\<open>TypeError\<close>.
\<close>

definition has_keywords :: "document \<Rightarrow> exn + bool" where
  "has_keywords data =
     (case data of
        DObject d \<Rightarrow> Inr (d_keywords d \<noteq> None)
      | DArray xs \<Rightarrow> Inr (JStr ''keywords'' \<in> set xs)
      | DText s \<Rightarrow> Inr (contains ''keywords'' s)
      | DScalar t \<Rightarrow>
          Inl (OtherException (''argument of type '' @ [CHR 0x27] @ type_name t @ [CHR 0x27] @
                               '' is not iterable'')))"

text \<open>
  \<^verbatim>\<open>parse_parameters\<close>. Past the test, \<^verbatim>\<open>data["keywords"]\<close> is read first: on an array or
  a text that passed the test it raises \<^verbatim>\<open>TypeError\<close>, the index being a text.
\<close>

definition parse_parameters :: "world \<Rightarrow> string \<Rightarrow> exn + SearchParameters" where
  "parse_parameters w json_str =
     (case json_loads w json_str of
        Inl msg \<Rightarrow> Inl (ValueError (''Invalid JSON: '' @ msg))
      | Inr data \<Rightarrow>
          (case has_keywords data of
             Inl e \<Rightarrow> Inl e
           | Inr present \<Rightarrow>
               if \<not> present
               then Inl (ValueError ([CHR 0x27] @ ''keywords'' @ [CHR 0x27] @ '' is required''))
               else (case data of
                       DObject d \<Rightarrow>
                         Inr \<lparr>keywords_text = the (d_keywords d),
                              language = d_language d,
                              min_stars = get_default (d_min_stars d) 0,
                              topic = d_topic d,
                              sort_by = get_default (d_sort_by d) ''stars'',
                              max_results = min (get_default (d_max_results d) 5) 10,
                              include_readme = get_default (d_include_readme d) True,
                              fallback_search = get_default (d_fallback_search d) True\<rparr>
                     | _ \<Rightarrow> Inl (OtherException ''indices must be integers''))))"

text \<open>
  The three \<^verbatim>\<open>except\<close> clauses of \<^verbatim>\<open>main\<close>: the failure dictionary goes to standard
  error and the process exits with code 1.
\<close>

definition error_output :: "exn \<Rightarrow> envelope" where
  "error_output e =
     \<lparr>success = False,
      count = None,
      repositories = None,
      suggestions = None,
      message = None,
      error = Some (str_exn e),
      error_type = Some (case e of
                           ValueError msg \<Rightarrow> ''validation_error''
                         | RuntimeError msg \<Rightarrow> ''api_error''
                         | _ \<Rightarrow> ''unexpected_error'')\<rparr>"

text \<open>
  \<^verbatim>\<open>main\<close>, from the \<^verbatim>\<open>try\<close> on: \<open>parameters\<close> is the text of \<^verbatim>\<open>args.parameters\<close>. Reading
  the command line comes before it; building the client and finding the token send no
  request to the provider.
\<close>

definition main :: "world \<Rightarrow> string \<Rightarrow> run" where
  "main w parameters =
     (case parse_parameters w parameters of
        Inl e \<Rightarrow>
          \<lparr>stream_of = Stderr, printed = error_output e, exit_code = 1, requests = []\<rparr>
      | Inr params \<Rightarrow>
          (case search_repositories w params [] of
             (Inl e, log) \<Rightarrow>
               \<lparr>stream_of = Stderr, printed = error_output e, exit_code = 1, requests = log\<rparr>
           | (Inr repos, log) \<Rightarrow>
               \<lparr>stream_of = Stdout, printed = format_output repos (Some params),
                exit_code = 0, requests = log\<rparr>))"

section \<open>Failure of a README retrieval, and sample worlds\<close>

text \<open>
  The failures of a README retrieval, one by one: the transport raises; the status is
  404; the status is another one outside 200..299; the body is not JSON; the document
  is not a dictionary; its \<^verbatim>\<open>content\<close> is a value other than text that counts as true;
  the text is not base64; the bytes are not UTF-8. A dictionary whose \<^verbatim>\<open>content\<close> is
  missing or counts as false holds no README and is listed with them.
\<close>

definition readme_failure :: "world \<Rightarrow> json http_result \<Rightarrow> bool" where
  "readme_failure w result =
     (case result of
        RequestError msg \<Rightarrow> True
      | Response status_code txt body \<Rightarrow>
          if status_code = 404 then True
          else if is_success status_code
          then (case body of
                  Inl e \<Rightarrow> True
                | Inr (JObj kvs) \<Rightarrow>
                    (case map_of kvs ''content'' of
                       None \<Rightarrow> True
                     | Some (JStr c) \<Rightarrow>
                         if c = [] then True
                         else (case b64decode w (replace c [CHR 0x0A] []) of
                                 Inl e \<Rightarrow> True
                               | Inr raw \<Rightarrow> (case utf8_decode w raw of
                                              Inl e \<Rightarrow> True
                                            | Inr decoded \<Rightarrow> False))
                     | Some v \<Rightarrow> True)
                | Inr v \<Rightarrow> True)
          else True)"

text \<open>
  Sample data for the concrete runs below: an input object with only the keywords
  \<open>x\<close>, a complete provider record, and a world built from an input object (what
  \<open>json_loads\<close> gives for the input text), the items of the search response, the answers
  to README requests, and the text that the decoders give.
\<close>

definition sample_doc :: input_doc where
  "sample_doc =
     \<lparr>d_keywords = Some ''x'', d_language = None, d_min_stars = None, d_topic = None,
      d_sort_by = None, d_max_results = None, d_include_readme = None,
      d_fallback_search = None\<rparr>"

definition sample_item :: "string \<Rightarrow> raw_item" where
  "sample_item fname =
     \<lparr>item_name = Some ''tool'', item_full_name = Some fname, item_description = None,
      item_html_url = Some ''https://github.com/o/tool'', item_stargazers_count = Some 7,
      item_forks_count = Some 1, item_language = Some ''Python'', item_topics = None,
      item_created_at = Some ''2020-01-01T00:00:00Z'',
      item_updated_at = Some ''2021-01-01T00:00:00Z'',
      item_pushed_at = Some ''2021-01-01T00:00:00Z'', item_open_issues_count = Some 0,
      item_license = Some (Some ''MIT'')\<rparr>"

definition sample_world ::
  "input_doc \<Rightarrow> raw_item list \<Rightarrow> (nat \<Rightarrow> json http_result) \<Rightarrow> string \<Rightarrow> world"
where
  "sample_world doc items readmes decoded =
     \<lparr>search_get = (\<lambda>n q s order per_page. Response 200 [] (Inr \<lparr>data_items = Some items\<rparr>)),
      readme_get = (\<lambda>n path. readmes n),
      json_loads = (\<lambda>s. Inr (DObject doc)),
      b64decode = (\<lambda>s. Inr []),
      utf8_decode = (\<lambda>raw. Inr decoded)\<rparr>"

text \<open>
  Answers to README requests: every request fails in transit; the first request of a
  run after the search (request number 1) gets a 404 and every other one a timeout;
  every request gets a well-formed README document.
\<close>

definition no_readme :: "nat \<Rightarrow> json http_result" where
  "no_readme n = RequestError ''connection refused''"

definition two_failures :: "nat \<Rightarrow> json http_result" where
  "two_failures n =
     (if n = 1 then Response 404 ''Not Found'' (Inl (ValueError ''Expecting value''))
      else RequestError ''timed out'')"

definition good_readme :: "nat \<Rightarrow> json http_result" where
  "good_readme n = Response 200 [] (Inr (JObj [(''content'', JStr ''YWFh'')]))"

text \<open>
  The world of the command line \<^verbatim>\<open>python github_search_tool.py 5\<close>: \<^verbatim>\<open>json.loads\<close> gives the
  integer 5, and the provider would answer a search with an empty list.
\<close>

definition world_of_five :: world where
  "world_of_five =
     (sample_world sample_doc [] no_readme [])\<lparr>json_loads := (\<lambda>s. Inr (DScalar IntType))\<rparr>"

section \<open>The query builder's output\<close>

text \<open>
  C4. For every \<open>SearchParameters\<close> value the query is the keywords text as it stands,
  followed, each after one space and in this order, by \<open>language:<language>\<close> when a
  language is set, \<open>stars:>=<min_stars>\<close> when \<open>min_stars\<close> is above zero, and
  \<open>topic:<topic>\<close> when a topic is set. On the parameters with keywords \<open>x\<close>, language
  \<open>go\<close>, 50 stars and topic \<open>cli\<close> the query is exactly
  \<open>x language:go stars:>=50 topic:cli\<close>.
\<close>

theorem build_search_query_fixed_order:
  "build_search_query params =
     keywords_text params
     @ (if truthy (language params) then '' language:'' @ the (language params) else [])
     @ (if min_stars params > 0 then '' stars:>='' @ str_int (min_stars params) else [])
     @ (if truthy (topic params) then '' topic:'' @ the (topic params) else [])
   \<and> build_search_query
         \<lparr>keywords_text = ''x'', language = Some ''go'', min_stars = 50, topic = Some ''cli'',
          sort_by = sb, max_results = mr, include_readme = ir, fallback_search = fs\<rparr>
       = ''x language:go stars:>=50 topic:cli''"
proof
  show "build_search_query params =
     keywords_text params
     @ (if truthy (language params) then '' language:'' @ the (language params) else [])
     @ (if min_stars params > 0 then '' stars:>='' @ str_int (min_stars params) else [])
     @ (if truthy (topic params) then '' topic:'' @ the (topic params) else [])"
    by (simp add: build_search_query_def Let_def)
next
  show "build_search_query
         \<lparr>keywords_text = ''x'', language = Some ''go'', min_stars = 50, topic = Some ''cli'',
          sort_by = sb, max_results = mr, include_readme = ir, fallback_search = fs\<rparr>
       = ''x language:go stars:>=50 topic:cli''"
    by (simp add: build_search_query_def Let_def truthy_def str_int_def digits.simps)
qed

text \<open>
  C10. In the query builder an empty language behaves as a missing one, and an empty
  topic as a missing one: the query is the same, so no \<open>language:\<close> or \<open>topic:\<close>
  qualifier is written for the empty text.
\<close>

theorem build_search_query_empty_is_absent:
  "build_search_query (params\<lparr>language := Some []\<rparr>)
     = build_search_query (params\<lparr>language := None\<rparr>)
   \<and> build_search_query (params\<lparr>topic := Some []\<rparr>)
     = build_search_query (params\<lparr>topic := None\<rparr>)"
  by (simp add: build_search_query_def Let_def truthy_def)

section \<open>The suggestion engine on concrete parameters\<close>

lemma lower_ml_tools: "lower ''ml tools'' = ''ml tools''"
  by (simp add: lower_def lower_char_def isupper_def)

lemma split_ml_tools: "split ''ml tools'' = [''ml'', ''tools'']"
  by (simp add: split_def isspace_def)

lemma replace_ml_tools:
  "replace (lower ''ml tools'') ''ml'' ''machine learning'' = ''machine learning tools''"
  by (simp add: lower_ml_tools replace_def)

lemma find_abbreviation_ml_tools:
  "find (\<lambda>(abbr, expansion). abbr \<in> set (split (lower ''ml tools''))) abbreviations
     = Some (''ml'', ''machine learning'')"
  by (simp add: lower_ml_tools split_ml_tools abbreviations_def)

lemma find_topic_ml_tools:
  "find (\<lambda>(keyword, tag). contains keyword (lower ''ml tools'')) topic_suggestions = None"
  by (simp add: lower_ml_tools topic_suggestions_def)

lemma str_int_500: "str_int 500 = ''500''" "str_int 250 = ''250''"
  by (simp_all add: str_int_def digits.simps)

text \<open>
  C6. For the parameters with keywords \<open>ml tools\<close>, 500 stars and language \<open>python\<close> the
  suggestion engine gives exactly three suggestions, in this order: the abbreviation
  expanded (\<open>ml\<close> to \<open>machine learning\<close>), the stars lowered to 250 or 50, and the
  language filter \<open>python\<close> removed.
\<close>

theorem suggestions_ml_tools:
  "generate_search_suggestions
     \<lparr>keywords_text = ''ml tools'', language = Some ''python'', min_stars = 500,
      topic = None, sort_by = sb, max_results = mr, include_readme = ir,
      fallback_search = fs\<rparr>
   = [''Try expanding abbreviations: '' @ [CHR 0x22] @ ''machine learning tools'' @ [CHR 0x22],
      ''Try lowering min_stars from 500 to 250 or 50'',
      ''Try searching without the language filter (remove language: '' @
        [CHR 0x22] @ ''python'' @ [CHR 0x22] @ '')'']"
  unfolding generate_search_suggestions_def
  by (simp add: split_ml_tools replace_ml_tools find_abbreviation_ml_tools find_topic_ml_tools
      str_int_500 truthy_def Let_def)

lemma lower_ai_email: "lower ''ai email'' = ''ai email''"
  by (simp add: lower_def lower_char_def isupper_def)

lemma split_ai_email: "split ''ai email'' = [''ai'', ''email'']"
  by (simp add: split_def isspace_def)

lemma replace_ai_email:
  "replace (lower ''ai email'') ''ai'' ''artificial intelligence''
     = ''artificial intelligence emartificial intelligencel''"
  by (simp add: lower_ai_email replace_def)

lemma find_abbreviation_ai_email:
  "find (\<lambda>(abbr, expansion). abbr \<in> set (split (lower ''ai email''))) abbreviations
     = Some (''ai'', ''artificial intelligence'')"
  by (simp add: lower_ai_email split_ai_email abbreviations_def)

lemma find_topic_ai_email:
  "find (\<lambda>(keyword, tag). contains keyword (lower ''ai email'')) topic_suggestions = None"
  by (simp add: lower_ai_email topic_suggestions_def)

text \<open>
  C7. On the keywords \<open>ai email\<close> the abbreviation heuristic fires on the whole token
  \<open>ai\<close>, and the text it names is not the keywords with that token expanded
  (\<open>artificial intelligence email\<close>): the letters \<open>ai\<close> inside the other token \<open>email\<close>
  are replaced as well.
\<close>

theorem suggestions_ai_email:
  "generate_search_suggestions
     \<lparr>keywords_text = ''ai email'', language = None, min_stars = 0, topic = None,
      sort_by = sb, max_results = mr, include_readme = ir, fallback_search = fs\<rparr>
   = [''Try expanding abbreviations: '' @ [CHR 0x22] @
        ''artificial intelligence emartificial intelligencel'' @ [CHR 0x22]]
   \<and> ''artificial intelligence emartificial intelligencel''
       \<noteq> join '' '' [''artificial intelligence'', ''email'']"
  unfolding generate_search_suggestions_def
  by (simp add: split_ai_email replace_ai_email find_abbreviation_ai_email find_topic_ai_email
      truthy_def Let_def)

section \<open>The output envelope\<close>

lemma format_output_fields:
  "success (format_output repos params)"
  "count (format_output repos params) = Some (length repos)"
  "suggestions (format_output repos (Some p)) =
     (if repos = [] then Some (generate_search_suggestions p) else None)"
  by (simp_all add: format_output_def Let_def)

lemma error_output_fields:
  "\<not> success (error_output e)"
  "suggestions (error_output e) = None"
  by (simp_all add: error_output_def)

text \<open>
  C2. In the dictionary that a run of the tool prints, whatever the input and the
  provider's answers, \<open>suggestions\<close> is present exactly when \<open>success\<close> is true and
  \<open>count\<close> is 0.
\<close>

theorem suggestions_iff_success_and_empty:
  "(suggestions (printed (main w parameters)) \<noteq> None)
     = (success (printed (main w parameters)) \<and> count (printed (main w parameters)) = Some 0)"
  by (simp add: main_def format_output_fields error_output_fields split: sum.split prod.split)

section \<open>Parameter parsing\<close>

text \<open>
  An object without the \<open>keywords\<close> key, an array without the element \<open>keywords\<close> and
  a text without the part \<open>keywords\<close> fail the test of \<^verbatim>\<open>parse_parameters\<close>: the run
  prints the failure dictionary with \<open>error_type\<close> \<open>validation_error\<close> on standard
  error, exits with code 1, and has sent no request.
\<close>

lemma lacking_keywords_validation_error:
  assumes "json_loads w parameters = Inr data"
    and "has_keywords data = Inr False"
  shows "main w parameters =
     \<lparr>stream_of = Stderr,
      printed = \<lparr>success = False, count = None, repositories = None, suggestions = None,
                 message = None,
                 error = Some ([CHR 0x27] @ ''keywords'' @ [CHR 0x27] @ '' is required''),
                 error_type = Some ''validation_error''\<rparr>,
      exit_code = 1, requests = []\<rparr>"
  using assms by (simp add: main_def parse_parameters_def error_output_def str_exn_def)

lemma missing_keywords_validation_error:
  assumes "json_loads w parameters = Inr (DObject data)"
    and "d_keywords data = None"
  shows "main w parameters =
     \<lparr>stream_of = Stderr,
      printed = \<lparr>success = False, count = None, repositories = None, suggestions = None,
                 message = None,
                 error = Some ([CHR 0x27] @ ''keywords'' @ [CHR 0x27] @ '' is required''),
                 error_type = Some ''validation_error''\<rparr>,
      exit_code = 1, requests = []\<rparr>"
  using assms lacking_keywords_validation_error [of w parameters "DObject data"]
  by (simp add: has_keywords_def)

lemma missing_keywords_validation_error_example:
  "error_type (printed (main (sample_world (sample_doc\<lparr>d_keywords := None\<rparr>) [] no_readme [])
                          ''input'')) = Some ''validation_error''
   \<and> exit_code (main (sample_world (sample_doc\<lparr>d_keywords := None\<rparr>) [] no_readme [])
                    ''input'') = 1
   \<and> requests (main (sample_world (sample_doc\<lparr>d_keywords := None\<rparr>) [] no_readme [])
                   ''input'') = []"
proof -
  let ?w = "sample_world (sample_doc\<lparr>d_keywords := None\<rparr>) [] no_readme []"
  have h1: "json_loads ?w ''input'' = Inr (DObject (sample_doc\<lparr>d_keywords := None\<rparr>))"
    by (simp add: sample_world_def)
  have h2: "d_keywords (sample_doc\<lparr>d_keywords := None\<rparr>) = None"
    by simp
  show ?thesis
    using missing_keywords_validation_error [OF h1 h2] by simp
qed

text \<open>
  A scalar document (null, a boolean, a number) has no \<open>keywords\<close> key either, and
  there the test itself raises: the run fails with \<open>error_type\<close> \<open>unexpected_error\<close>,
  exit code 1 and no request.
\<close>

lemma scalar_document_unexpected_error:
  assumes "json_loads w parameters = Inr (DScalar t)"
  shows "stream_of (main w parameters) = Stderr
     \<and> error_type (printed (main w parameters)) = Some ''unexpected_error''
     \<and> exit_code (main w parameters) = 1
     \<and> requests (main w parameters) = []"
  using assms
  by (simp add: main_def parse_parameters_def has_keywords_def error_output_def)

text \<open>
  C8. On the input document \<open>5\<close>, which lacks the \<open>keywords\<close> key, the run does exit
  with code 1 and sends no request, but the failure dictionary on standard error has
  the \<open>error_type\<close> \<open>unexpected_error\<close>, not \<open>validation_error\<close>: \<^verbatim>\<open>"keywords" not in 5\<close>
  raises \<^verbatim>\<open>TypeError\<close>, where the documentation of \<^verbatim>\<open>parse_parameters\<close> promises a
  \<^verbatim>\<open>ValueError\<close> for missing or invalid parameters.
\<close>

theorem document_five_unexpected_error:
  "main world_of_five ''5'' =
     \<lparr>stream_of = Stderr,
      printed = \<lparr>success = False, count = None, repositories = None, suggestions = None,
                 message = None,
                 error = Some (''argument of type '' @ [CHR 0x27] @ ''int'' @ [CHR 0x27] @
                               '' is not iterable''),
                 error_type = Some ''unexpected_error''\<rparr>,
      exit_code = 1, requests = []\<rparr>"
  by (simp add: main_def parse_parameters_def has_keywords_def error_output_def str_exn_def
      type_name_def world_of_five_def)

lemma fetch_readme_log:
  "snd (fetch_readme w log fname) = log @ [ReadmeRequest (readme_path fname)]"
  by (simp add: fetch_readme_def Let_def)

lemma normalize_items_log:
  "\<exists>rest. snd (normalize_items w readme items log) = log @ rest"
proof (induction items arbitrary: log)
  case Nil
  show ?case by simp
next
  case (Cons item items)
  show ?case
  proof (cases "make_repository item")
    case (Inl e)
    then show ?thesis by simp
  next
    case (Inr repo)
    obtain content log1
      where f: "(if readme then fetch_readme w log (full_name repo) else (None, log))
                  = (content, log1)"
      by (cases "if readme then fetch_readme w log (full_name repo) else (None, log)") auto
    have l1: "\<exists>r. log1 = log @ r"
      using f fetch_readme_log [of w log "full_name repo"]
      by (cases readme) (auto simp: snd_def split: prod.splits)
    obtain rest where r: "snd (normalize_items w readme items log1) = log1 @ rest"
      using Cons.IH by blast
    show ?thesis
      using Inr f l1 r
      by (auto simp add: Let_def split: prod.splits sum.splits)
  qed
qed

lemma search_repositories_first_request:
  "\<exists>rest. snd (search_repositories w params []) =
     SearchRequest (build_search_query params)
       (case map_of sort_mapping (sort_by params) of Some s \<Rightarrow> s | None \<Rightarrow> ''stars'')
       ''desc'' (min (max_results params) 10) # rest"
proof -
  let ?req = "SearchRequest (build_search_query params)
       (case map_of sort_mapping (sort_by params) of Some s \<Rightarrow> s | None \<Rightarrow> ''stars'')
       ''desc'' (min (max_results params) 10)"
  have n: "\<exists>rest. snd (normalize_items w r items [?req]) = ?req # rest" for r items
    using normalize_items_log [of w r items "[?req]"] by simp
  show ?thesis
    unfolding search_repositories_def Let_def
    using n by (simp split: http_result.split sum.split)
qed

text \<open>
  C3, as the code has it. Parsing caps \<open>max_results\<close> at 10 and has no lower bound: a
  missing \<open>max_results\<close> gives 5, a value above 10 (such as 25) gives 10, and a value of
  at most 10 (such as 0) is kept as it is; the search request of the run asks for a
  page of that size.
\<close>

theorem parse_caps_max_results:
  assumes "json_loads w parameters = Inr (DObject data)"
    and "d_keywords data = Some kw"
  shows "\<exists>params rest. parse_parameters w parameters = Inr params
     \<and> max_results params = (case d_max_results data of
                               None \<Rightarrow> 5
                             | Some m \<Rightarrow> if m \<le> 10 then m else 10)
     \<and> requests (main w parameters) =
         SearchRequest (build_search_query params)
           (case map_of sort_mapping (sort_by params) of Some s \<Rightarrow> s | None \<Rightarrow> ''stars'')
           ''desc''
           (case d_max_results data of None \<Rightarrow> 5 | Some m \<Rightarrow> if m \<le> 10 then m else 10)
         # rest"
proof -
  let ?cap = "case d_max_results data of None \<Rightarrow> 5 | Some m \<Rightarrow> if m \<le> 10 then m else (10::int)"
  obtain params where p: "parse_parameters w parameters = Inr params"
    and m: "max_results params = ?cap"
    using assms
    by (auto simp add: parse_parameters_def has_keywords_def get_default_def
        split: option.split)
  have le: "min (max_results params) 10 = ?cap"
    using m by (simp split: option.split)
  obtain rest where r: "snd (search_repositories w params []) =
     SearchRequest (build_search_query params)
       (case map_of sort_mapping (sort_by params) of Some s \<Rightarrow> s | None \<Rightarrow> ''stars'')
       ''desc'' ?cap # rest"
    using search_repositories_first_request [of w params] le by auto
  have "requests (main w parameters) = snd (search_repositories w params [])"
    using p by (simp add: main_def split: prod.split sum.split)
  then show ?thesis
    using p m r by simp
qed

theorem parse_caps_max_results_witness:
  "json_loads (sample_world (sample_doc\<lparr>d_max_results := Some 25\<rparr>) [] no_readme []) ''input''
     = Inr (DObject (sample_doc\<lparr>d_max_results := Some 25\<rparr>))
   \<and> d_keywords (sample_doc\<lparr>d_max_results := Some 25\<rparr>) = Some ''x''
   \<and> hd (requests (main (sample_world (sample_doc\<lparr>d_max_results := Some 25\<rparr>) [] no_readme [])
                       ''input''))
     = SearchRequest ''x'' ''stars'' ''desc'' 10"
proof -
  let ?d = "sample_doc\<lparr>d_max_results := Some 25\<rparr>"
  let ?w = "sample_world ?d [] no_readme []"
  have h1: "json_loads ?w ''input'' = Inr (DObject ?d)"
    by (simp add: sample_world_def)
  have h2: "d_keywords ?d = Some ''x''"
    by (simp add: sample_doc_def)
  have p: "parse_parameters ?w ''input'' =
     Inr \<lparr>keywords_text = ''x'', language = None, min_stars = 0, topic = None,
          sort_by = ''stars'', max_results = 10, include_readme = True,
          fallback_search = True\<rparr>"
    by (simp add: parse_parameters_def has_keywords_def sample_world_def sample_doc_def
        get_default_def)
  show ?thesis
    using h1 h2 parse_caps_max_results [OF h1 h2] p
    by (auto simp add: build_search_query_def truthy_def sort_mapping_def sample_doc_def)
qed

text \<open>
  The claim C3 as stated fails on the input document with keywords \<open>x\<close> and
  \<open>max_results\<close> 0: the parsed value is 0, not the default 5, and the search request
  asks for a page of size 0.
\<close>

theorem max_results_zero_counterexample:
  "parse_parameters (sample_world (sample_doc\<lparr>d_max_results := Some 0\<rparr>) [] no_readme []) ''input''
     = Inr \<lparr>keywords_text = ''x'', language = None, min_stars = 0, topic = None,
            sort_by = ''stars'', max_results = 0, include_readme = True,
            fallback_search = True\<rparr>
   \<and> requests (main (sample_world (sample_doc\<lparr>d_max_results := Some 0\<rparr>) [] no_readme [])
                   ''input'')
     = [SearchRequest ''x'' ''stars'' ''desc'' 0]"
  by (simp add: main_def parse_parameters_def has_keywords_def search_repositories_def
      sample_world_def sample_doc_def get_default_def build_search_query_def truthy_def sort_mapping_def
      is_success_def Let_def)

section \<open>README retrieval: truncation and failures\<close>

text \<open>
  C5. When the README request succeeds and its \<open>content\<close> decodes to a text, the
  stored README is that text unmodified when it has at most 5000 characters, and
  otherwise its first 5000 characters followed by the marker: two line feeds and
  \<open>[README truncated...]\<close>.
\<close>

theorem readme_truncated_at_5000:
  assumes "readme_get w (length log) (readme_path fname)
             = Response status_code txt (Inr (JObj kvs))"
    and "is_success status_code"
    and "map_of kvs ''content'' = Some (JStr c)"
    and "c \<noteq> []"
    and "b64decode w (replace c [CHR 0x0A] []) = Inr raw"
    and "utf8_decode w raw = Inr decoded"
  shows "fst (fetch_readme w log fname) =
     Some (if length decoded > 5000
           then take 5000 decoded @ [CHR 0x0A, CHR 0x0A] @ ''[README truncated...]''
           else decoded)"
  using assms
  by (simp add: fetch_readme_def fetch_readme_try_def json_get_def is_success_def
      readme_marker_def Let_def)

theorem readme_truncated_at_5000_witness:
  "fst (fetch_readme (sample_world sample_doc [] good_readme (replicate 6000 CHR ''a'')) []
          ''o/tool'')
     = Some (replicate 5000 CHR ''a'' @ [CHR 0x0A, CHR 0x0A] @ ''[README truncated...]'')
   \<and> fst (fetch_readme (sample_world sample_doc [] good_readme (replicate 4000 CHR ''a'')) []
            ''o/tool'')
     = Some (replicate 4000 CHR ''a'')"
proof -
  have h1: "readme_get (sample_world sample_doc [] good_readme t) (length ([] :: request list))
              (readme_path ''o/tool'')
            = Response 200 [] (Inr (JObj [(''content'', JStr ''YWFh'')]))" for t
    by (simp add: sample_world_def good_readme_def)
  have h2: "is_success 200"
    by (simp add: is_success_def)
  have h3: "map_of [(''content'', JStr ''YWFh'')] ''content'' = Some (JStr ''YWFh'')"
    by simp
  have h4: "''YWFh'' \<noteq> []"
    by simp
  have h5: "b64decode (sample_world sample_doc [] good_readme t)
              (replace ''YWFh'' [CHR 0x0A] []) = Inr []" for t
    by (simp add: sample_world_def)
  have h6: "utf8_decode (sample_world sample_doc [] good_readme t) [] = Inr t" for t
    by (simp add: sample_world_def)
  show ?thesis
    using readme_truncated_at_5000 [OF h1 h2 h3 h4 h5 h6, of "replicate 6000 CHR ''a''"]
      readme_truncated_at_5000 [OF h1 h2 h3 h4 h5 h6, of "replicate 4000 CHR ''a''"]
    by simp
qed

lemma fetch_readme_try_failure:
  "readme_failure w result \<longrightarrow>
     (case fetch_readme_try w result of Inl e \<Rightarrow> None | Inr r \<Rightarrow> r) = None"
  by (simp add: readme_failure_def fetch_readme_try_def json_get_def Let_def
      split: http_result.split sum.split json.split option.split)

lemma fetch_readme_failure:
  assumes "readme_failure w (readme_get w (length log) (readme_path fname))"
  shows "fst (fetch_readme w log fname) = None"
  using fetch_readme_try_failure assms
  by (simp add: fetch_readme_def Let_def)

lemma make_repository_readme:
  "make_repository item = Inr repo \<Longrightarrow> readme_content repo = None"
  by (auto simp add: make_repository_def split: option.splits prod.splits)

text \<open>
  The loop over well-formed items with \<open>include_readme\<close> set: it returns one repository
  per item, in order, each the normalized item with its README field filled in, and
  the field is \<open>None\<close> wherever the item's README request failed.
\<close>

lemma normalize_items_complete:
  assumes "\<forall>item\<in>set items. \<exists>repo. make_repository item = Inr repo"
  shows "\<exists>repos log'. normalize_items w True items log = (Inr repos, log')
     \<and> length repos = length items
     \<and> (\<forall>i<length items.
           make_repository (items ! i) = Inr ((repos ! i)\<lparr>readme_content := None\<rparr>)
           \<and> (readme_failure w
                 (readme_get w (length log + i) (readme_path (full_name (repos ! i))))
                \<longrightarrow> readme_content (repos ! i) = None))"
  using assms
proof (induction items arbitrary: log)
  case Nil
  show ?case by simp
next
  case (Cons item items)
  obtain repo where repo: "make_repository item = Inr repo"
    using Cons.prems by auto
  let ?log1 = "log @ [ReadmeRequest (readme_path (full_name repo))]"
  obtain content where f: "fetch_readme w log (full_name repo) = (content, ?log1)"
    using fetch_readme_log [of w log "full_name repo"]
    by (cases "fetch_readme w log (full_name repo)") simp
  have "\<forall>item\<in>set items. \<exists>repo. make_repository item = Inr repo"
    using Cons.prems by simp
  from Cons.IH [OF this, of ?log1]
  obtain repos log' where rest: "normalize_items w True items ?log1 = (Inr repos, log')"
    and len: "length repos = length items"
    and each: "\<forall>i<length items.
           make_repository (items ! i) = Inr ((repos ! i)\<lparr>readme_content := None\<rparr>)
           \<and> (readme_failure w
                 (readme_get w (length ?log1 + i) (readme_path (full_name (repos ! i))))
                \<longrightarrow> readme_content (repos ! i) = None)"
    by blast
  let ?repo = "repo\<lparr>readme_content := content\<rparr>"
  have step: "normalize_items w True (item # items) log = (Inr (?repo # repos), log')"
    using repo f rest by (simp add: Let_def)
  have restore: "(?repo)\<lparr>readme_content := None\<rparr> = repo"
    using make_repository_readme [OF repo] by simp
  have head: "readme_failure w (readme_get w (length log) (readme_path (full_name ?repo)))
      \<longrightarrow> readme_content ?repo = None"
    using fetch_readme_failure [of w log "full_name repo"] f by simp
  have "\<forall>i<length (item # items).
           make_repository ((item # items) ! i)
             = Inr (((?repo # repos) ! i)\<lparr>readme_content := None\<rparr>)
           \<and> (readme_failure w
                 (readme_get w (length log + i) (readme_path (full_name ((?repo # repos) ! i))))
                \<longrightarrow> readme_content ((?repo # repos) ! i) = None)"
  proof (intro allI impI)
    fix i assume i: "i < length (item # items)"
    show "make_repository ((item # items) ! i)
             = Inr (((?repo # repos) ! i)\<lparr>readme_content := None\<rparr>)
           \<and> (readme_failure w
                 (readme_get w (length log + i) (readme_path (full_name ((?repo # repos) ! i))))
                \<longrightarrow> readme_content ((?repo # repos) ! i) = None)"
    proof (cases i)
      case 0
      then show ?thesis
        using repo restore head make_repository_readme [OF repo] by simp
    next
      case (Suc j)
      then have "j < length items" using i by simp
      then show ?thesis using each Suc by simp
    qed
  qed
  then show ?case using step len by simp
qed

text \<open>
  C1. Let the primary search succeed with \<open>include_readme\<close> set and return well-formed
  items. Then, whatever the README requests give, \<open>search_repositories\<close> returns one
  repository per item, each the normalized item; for every item whose README
  retrieval fails (transport error, 404, another status outside 200..299, a body that
  is not JSON or not of the expected shape, a base64 or UTF-8 decoding error) the
  repository's \<open>readme_content\<close> is \<open>None\<close>; and the run prints the success dictionary
  with all repositories on standard output and exits with code 0.
\<close>

theorem readme_failure_never_propagates:
  assumes "parse_parameters w parameters = Inr params"
    and "include_readme params"
    and "search_get w 0 (build_search_query params)
           (case map_of sort_mapping (sort_by params) of Some s \<Rightarrow> s | None \<Rightarrow> ''stars'')
           ''desc'' (min (max_results params) 10) = Response status_code txt (Inr data)"
    and "is_success status_code"
    and "data_items data = Some items"
    and "\<forall>item\<in>set items. \<exists>repo. make_repository item = Inr repo"
  shows "\<exists>repos log. search_repositories w params [] = (Inr repos, log)
     \<and> length repos = length items
     \<and> (\<forall>i<length items.
           make_repository (items ! i) = Inr ((repos ! i)\<lparr>readme_content := None\<rparr>)
           \<and> (readme_failure w (readme_get w (Suc i) (readme_path (full_name (repos ! i))))
                \<longrightarrow> readme_content (repos ! i) = None))
     \<and> main w parameters =
          \<lparr>stream_of = Stdout, printed = format_output repos (Some params), exit_code = 0,
           requests = log\<rparr>
     \<and> success (format_output repos (Some params))
     \<and> count (format_output repos (Some params)) = Some (length items)"
proof -
  let ?req = "SearchRequest (build_search_query params)
           (case map_of sort_mapping (sort_by params) of Some s \<Rightarrow> s | None \<Rightarrow> ''stars'')
           ''desc'' (min (max_results params) 10)"
  from normalize_items_complete [OF assms(6), of w "[?req]"]
  obtain repos log where n: "normalize_items w True items [?req] = (Inr repos, log)"
    and len: "length repos = length items"
    and each: "\<forall>i<length items.
           make_repository (items ! i) = Inr ((repos ! i)\<lparr>readme_content := None\<rparr>)
           \<and> (readme_failure w
                 (readme_get w (length [?req] + i) (readme_path (full_name (repos ! i))))
                \<longrightarrow> readme_content (repos ! i) = None)"
    by blast
  have s: "search_repositories w params [] = (Inr repos, log)"
    using assms(2-5) n by (simp add: search_repositories_def Let_def)
  have m: "main w parameters =
          \<lparr>stream_of = Stdout, printed = format_output repos (Some params), exit_code = 0,
           requests = log\<rparr>"
    using assms(1) s by (simp add: main_def)
  have each': "\<forall>i<length items.
           make_repository (items ! i) = Inr ((repos ! i)\<lparr>readme_content := None\<rparr>)
           \<and> (readme_failure w (readme_get w (Suc i) (readme_path (full_name (repos ! i))))
                \<longrightarrow> readme_content (repos ! i) = None)"
    using each by simp
  have c: "success (format_output repos (Some params))"
    "count (format_output repos (Some params)) = Some (length items)"
    using len by (simp_all add: format_output_fields)
  show ?thesis
    using s len each' m c by blast
qed

theorem readme_failure_never_propagates_witness:
  "readme_failure (sample_world sample_doc [sample_item ''o/a'', sample_item ''o/b''] two_failures [])
     (readme_get (sample_world sample_doc [sample_item ''o/a'', sample_item ''o/b''] two_failures [])
        1 (readme_path ''o/a''))
   \<and> readme_failure (sample_world sample_doc [sample_item ''o/a'', sample_item ''o/b''] two_failures [])
     (readme_get (sample_world sample_doc [sample_item ''o/a'', sample_item ''o/b''] two_failures [])
        2 (readme_path ''o/b''))
   \<and> map out_readme (the (repositories (printed
         (main (sample_world sample_doc [sample_item ''o/a'', sample_item ''o/b''] two_failures [])
            ''input'')))) = [None, None]
   \<and> success (printed
         (main (sample_world sample_doc [sample_item ''o/a'', sample_item ''o/b''] two_failures [])
            ''input''))
   \<and> exit_code
         (main (sample_world sample_doc [sample_item ''o/a'', sample_item ''o/b''] two_failures [])
            ''input'') = 0"
proof -
  let ?items = "[sample_item ''o/a'', sample_item ''o/b'']"
  let ?w = "sample_world sample_doc ?items two_failures []"
  let ?p = "\<lparr>keywords_text = ''x'', language = None, min_stars = 0, topic = None,
            sort_by = ''stars'', max_results = 5, include_readme = True,
            fallback_search = True\<rparr>"
  have h1: "parse_parameters ?w ''input'' = Inr ?p"
    by (simp add: parse_parameters_def has_keywords_def sample_world_def sample_doc_def
        get_default_def)
  have h2: "include_readme ?p"
    by simp
  have h3: "search_get ?w 0 (build_search_query ?p)
           (case map_of sort_mapping (sort_by ?p) of Some s \<Rightarrow> s | None \<Rightarrow> ''stars'')
           ''desc'' (min (max_results ?p) 10) = Response 200 [] (Inr \<lparr>data_items = Some ?items\<rparr>)"
    by (simp add: sample_world_def)
  have h4: "is_success 200"
    by (simp add: is_success_def)
  have h5: "data_items \<lparr>data_items = Some ?items\<rparr> = Some ?items"
    by simp
  have mk: "make_repository (sample_item f) =
      Inr \<lparr>name = ''tool'', full_name = f, description = None,
           url = ''https://github.com/o/tool'', stars = 7, forks = 1,
           repo_language = Some ''Python'', topics = [],
           created_at = ''2020-01-01T00:00:00Z'', updated_at = ''2021-01-01T00:00:00Z'',
           pushed_at = ''2021-01-01T00:00:00Z'', open_issues = 0, license = Some ''MIT'',
           readme_content = None\<rparr>" for f
    by (simp add: make_repository_def sample_item_def)
  have h6: "\<forall>item\<in>set ?items. \<exists>repo. make_repository item = Inr repo"
    by (simp add: mk)
  have f1: "readme_failure ?w (readme_get ?w 1 path)" for path
    by (simp add: readme_failure_def sample_world_def two_failures_def)
  have f2: "readme_failure ?w (readme_get ?w 2 path)" for path
    by (simp add: readme_failure_def sample_world_def two_failures_def)
  from readme_failure_never_propagates [OF h1 h2 h3 h4 h5 h6]
  obtain repos log where len: "length repos = length ?items"
    and each: "\<forall>i<length ?items.
           make_repository (?items ! i) = Inr ((repos ! i)\<lparr>readme_content := None\<rparr>)
           \<and> (readme_failure ?w (readme_get ?w (Suc i) (readme_path (full_name (repos ! i))))
                \<longrightarrow> readme_content (repos ! i) = None)"
    and m: "main ?w ''input'' =
          \<lparr>stream_of = Stdout, printed = format_output repos (Some ?p), exit_code = 0,
           requests = log\<rparr>"
    by blast
  have r0: "readme_content (repos ! 0) = None"
    using each f1 by (simp add: numeral_2_eq_2)
  have r1: "readme_content (repos ! 1) = None"
    using each f2 by (auto simp add: numeral_2_eq_2)
  obtain a b where ab: "repos = [a, b]"
    using len by (cases repos; cases "tl repos"; cases "tl (tl repos)") auto
  have outs: "map out_readme (map to_entry repos) = [None, None]"
    using r0 r1 ab by (simp add: to_entry_def)
  show ?thesis
    using f1 f2 m outs by (simp add: format_output_def Let_def ab)
qed

section \<open>The fallback_search parameter\<close>

lemma fetch_readme_try_json_loads:
  "fetch_readme_try (w\<lparr>json_loads := l\<rparr>) result = fetch_readme_try w result"
  by (simp add: fetch_readme_try_def split: http_result.split sum.split json.split)

lemma fetch_readme_json_loads:
  "fetch_readme (w\<lparr>json_loads := l\<rparr>) log fname = fetch_readme w log fname"
  by (simp add: fetch_readme_def fetch_readme_try_json_loads Let_def)

lemma normalize_items_json_loads:
  "normalize_items (w\<lparr>json_loads := l\<rparr>) readme items log = normalize_items w readme items log"
  by (induction items arbitrary: log)
     (simp_all add: fetch_readme_json_loads Let_def split: sum.split prod.split)

lemma search_repositories_json_loads:
  "search_repositories (w\<lparr>json_loads := l\<rparr>) params log = search_repositories w params log"
  by (simp add: search_repositories_def normalize_items_json_loads Let_def
      split: http_result.split sum.split)

lemma build_search_query_fallback:
  "build_search_query (params\<lparr>fallback_search := b\<rparr>) = build_search_query params"
  by (simp add: build_search_query_def Let_def)

lemma search_repositories_fallback:
  "search_repositories w (params\<lparr>fallback_search := b\<rparr>) log
     = search_repositories w params log"
  by (simp add: search_repositories_def build_search_query_fallback Let_def
      split: http_result.split sum.split)

lemma generate_search_suggestions_fallback:
  "generate_search_suggestions (params\<lparr>fallback_search := b\<rparr>)
     = generate_search_suggestions params"
proof -
  have fields:
    "keywords_text (params\<lparr>fallback_search := b\<rparr>) = keywords_text params"
    "language (params\<lparr>fallback_search := b\<rparr>) = language params"
    "min_stars (params\<lparr>fallback_search := b\<rparr>) = min_stars params"
    "topic (params\<lparr>fallback_search := b\<rparr>) = topic params"
    by simp_all
  show ?thesis
    unfolding generate_search_suggestions_def fields by (rule refl)
qed

lemma format_output_fallback:
  "format_output repos (Some (params\<lparr>fallback_search := b\<rparr>))
     = format_output repos (Some params)"
  by (simp add: format_output_def generate_search_suggestions_fallback Let_def)

text \<open>
  C9. Two runs whose input documents differ only in the value of \<open>fallback_search\<close>,
  against the same provider and decoders, leave the same result: the same printed
  dictionary on the same stream, the same exit code and the same requests. On an
  empty result the suggestions are generated whatever the value is.
\<close>

theorem fallback_search_has_no_effect:
  assumes "json_loads w1 parameters1 = Inr (DObject data)"
    and "json_loads w2 parameters2 = Inr (DObject (data\<lparr>d_fallback_search := b\<rparr>))"
    and "search_get w2 = search_get w1"
    and "readme_get w2 = readme_get w1"
    and "b64decode w2 = b64decode w1"
    and "utf8_decode w2 = utf8_decode w1"
  shows "main w2 parameters2 = main w1 parameters1
     \<and> suggestions (format_output [] (Some (params\<lparr>fallback_search := v\<rparr>)))
         = Some (generate_search_suggestions params)"
proof
  have w2: "w2 = w1\<lparr>json_loads := json_loads w2\<rparr>"
    using assms(3-6) by (cases w1, cases w2) simp
  show "main w2 parameters2 = main w1 parameters1"
  proof (cases "d_keywords data")
    case None
    then show ?thesis
      using assms(1,2) by (simp add: main_def parse_parameters_def has_keywords_def)
  next
    case (Some kw)
    obtain p where p1: "parse_parameters w1 parameters1 = Inr p"
      using assms(1) Some by (simp add: parse_parameters_def has_keywords_def)
    have p2: "parse_parameters w2 parameters2 = Inr (p\<lparr>fallback_search := get_default b True\<rparr>)"
      using assms(1,2) Some p1 by (auto simp add: parse_parameters_def has_keywords_def)
    have "search_repositories w2 (p\<lparr>fallback_search := get_default b True\<rparr>) []
            = search_repositories w1 p []"
      using search_repositories_json_loads [where w = w1 and l = "json_loads w2"] w2
      by (simp add: search_repositories_fallback)
    then show ?thesis
      by (simp add: main_def p1 p2 format_output_fallback split: prod.split sum.split)
  qed
next
  show "suggestions (format_output [] (Some (params\<lparr>fallback_search := v\<rparr>)))
         = Some (generate_search_suggestions params)"
    by (simp add: format_output_fields generate_search_suggestions_fallback)
qed

theorem fallback_search_has_no_effect_witness:
  "json_loads (sample_world sample_doc [] no_readme []) ''input'' = Inr (DObject sample_doc)
   \<and> json_loads (sample_world (sample_doc\<lparr>d_fallback_search := Some False\<rparr>) [] no_readme [])
         ''input'' = Inr (DObject (sample_doc\<lparr>d_fallback_search := Some False\<rparr>))
   \<and> main (sample_world (sample_doc\<lparr>d_fallback_search := Some False\<rparr>) [] no_readme [])
         ''input''
     = main (sample_world sample_doc [] no_readme []) ''input''"
proof -
  let ?w1 = "sample_world sample_doc [] no_readme []"
  let ?w2 = "sample_world (sample_doc\<lparr>d_fallback_search := Some False\<rparr>) [] no_readme []"
  have h1: "json_loads ?w1 ''input'' = Inr (DObject sample_doc)"
    by (simp add: sample_world_def)
  have h2: "json_loads ?w2 ''input'' =
      Inr (DObject (sample_doc\<lparr>d_fallback_search := Some False\<rparr>))"
    by (simp add: sample_world_def)
  have h3: "search_get ?w2 = search_get ?w1"
    by (simp add: sample_world_def)
  have h4: "readme_get ?w2 = readme_get ?w1"
    by (simp add: sample_world_def)
  have h5: "b64decode ?w2 = b64decode ?w1"
    by (simp add: sample_world_def)
  have h6: "utf8_decode ?w2 = utf8_decode ?w1"
    by (simp add: sample_world_def)
  show ?thesis
    using h1 h2 fallback_search_has_no_effect [OF h1 h2 h3 h4 h5 h6] by blast
qed

end
